theory Spec2Isabelle
  imports Complex_Main "HOL-Library.Word" "HOL-Library.Log_Nat" "HOL-Library.Sublist"
begin

section \<open>JavaScript strings\<close>

text \<open>
  A JavaScript string is a sequence of UTF-16 code units. The literals of the sources are
  ASCII except for one U+2011 in a title; \<open>str\<close> turns an ASCII literal into its code units.
\<close>

type_synonym jsstring = "16 word list"

definition str :: "string \<Rightarrow> jsstring" where
  "str s = map (\<lambda>c. of_nat (of_char c)) s"

section \<open>JavaScript numbers\<close>

text \<open>
  A JavaScript number is an IEEE 754 binary64 value: not-a-number, an infinity, or a finite
  value, which is a rational. A finite value is carried as that rational; the two zeros are
  one value (\<open>-0 === 0\<close>, and \<open>Math.max(0, -0)\<close> is \<open>+0\<close>, so the helper below never sees the
  sign of a zero).
\<close>

datatype number = NaN | PosInf | NegInf | Fin rat

text \<open>
  \<open>expo x\<close> is the binary exponent of a non-zero \<open>x\<close>, the \<open>e\<close> with
  \<open>2^e \<le> |x| < 2^(e+1)\<close>, found from the bit lengths of numerator and denominator.
\<close>

definition expo :: "rat \<Rightarrow> int" where
  "expo x =
    (case quotient_of \<bar>x\<bar> of (p, q) \<Rightarrow>
       let d = bitlen p - bitlen q in if 2 powi d \<le> \<bar>x\<bar> then d else d - 1)"

text \<open>
  The spacing of binary64 values around \<open>x\<close>: 52 fraction bits below the exponent, and
  the fixed spacing \<open>2^-1074\<close> of the subnormal range below \<open>2^-1022\<close>.
\<close>

definition ulp :: "rat \<Rightarrow> rat" where
  "ulp x = 2 powi (max (expo x) (- 1022) - 52)"

definition round_half_even :: "rat \<Rightarrow> int" where
  "round_half_even q =
    (let f = \<lfloor>q\<rfloor>; r = q - of_int f in
     if r < 1 / 2 then f else if 1 / 2 < r then f + 1 else if even f then f else f + 1)"

text \<open>
  Rounding of an exact result to binary64, to nearest with ties to even; a result that
  rounds to \<open>2^1024\<close> or beyond overflows to an infinity. A decimal literal of the source
  (\<open>0.345\<close>) denotes \<open>to_double\<close> of its decimal value.
\<close>

definition to_double :: "rat \<Rightarrow> number" where
  "to_double x =
    (let y = of_int (round_half_even (x / ulp x)) * ulp x in
     if 2 powi 1024 \<le> \<bar>y\<bar> then (if 0 < x then PosInf else NegInf) else Fin y)"

text \<open>\<open>Math.min\<close> and \<open>Math.max\<close> of two arguments: not-a-number if either argument is.\<close>

fun Math_min :: "number \<Rightarrow> number \<Rightarrow> number" where
  "Math_min NaN b = NaN"
| "Math_min a NaN = NaN"
| "Math_min NegInf b = NegInf"
| "Math_min a NegInf = NegInf"
| "Math_min PosInf b = b"
| "Math_min a PosInf = a"
| "Math_min (Fin x) (Fin y) = Fin (min x y)"

fun Math_max :: "number \<Rightarrow> number \<Rightarrow> number" where
  "Math_max NaN b = NaN"
| "Math_max a NaN = NaN"
| "Math_max PosInf b = PosInf"
| "Math_max a PosInf = PosInf"
| "Math_max NegInf b = b"
| "Math_max a NegInf = a"
| "Math_max (Fin x) (Fin y) = Fin (max x y)"

text \<open>
  The operator \<open>*\<close>: the exact product rounded to binary64; an infinity times zero is
  not-a-number, and otherwise an infinity keeps the sign of the product.
\<close>

fun mul :: "number \<Rightarrow> number \<Rightarrow> number" where
  "mul (Fin x) (Fin y) = to_double (x * y)"
| "mul NaN b = NaN"
| "mul a NaN = NaN"
| "mul (Fin x) b = (if x = 0 then NaN else if (0 < x) = (b = PosInf) then PosInf else NegInf)"
| "mul a (Fin y) = (if y = 0 then NaN else if (0 < y) = (a = PosInf) then PosInf else NegInf)"
| "mul a b = (if a = b then PosInf else NegInf)"

text \<open>
  \<open>Math.round\<close>: the nearest integer, a tie going towards plus infinity; computed exactly,
  so it is \<open>\<lfloor>x + 1/2\<rfloor>\<close> on the rational. Not-a-number and the infinities are returned
  as they are.
\<close>

fun Math_round :: "number \<Rightarrow> number" where
  "Math_round (Fin x) = Fin (of_int \<lfloor>x + 1 / 2\<rfloor>)"
| "Math_round a = a"

section \<open>Agile Leader Dashboard: the percentage helper\<close>

text \<open>
  \<^verbatim>\<open>const calcDefinedPct = (ratio) =>
    Math.round(Math.max(0, Math.min(1, ratio)) * 100);\<close>
  (the same body in the TypeScript component and in the HTML+JS page).
\<close>

definition calcDefinedPct :: "number \<Rightarrow> number" where
  "calcDefinedPct ratio =
     Math_round (mul (Math_max (to_double 0) (Math_min (to_double 1) ratio)) (to_double 100))"


section \<open>Agile Leader Dashboard: status table and colour lookup\<close>

text \<open>
  \<^verbatim>\<open>const teams = [ { name: ..., status: ..., prev: ..., backlog: ... }, ... ]\<close>
  (the same six rows in the TypeScript component and in the HTML+JS page).
\<close>

record team =
  name :: jsstring
  status :: jsstring
  prev :: jsstring
  backlog :: nat

definition teams :: "team list" where
  "teams =
    [\<lparr>name = str ''AAA2(Design&Platform)'', status = str ''Red'', prev = str ''Red'', backlog = 18\<rparr>,
     \<lparr>name = str ''DelEng&Support(DesignPlatform)'', status = str ''Red'', prev = str ''Red'', backlog = 22\<rparr>,
     \<lparr>name = str ''OrangeSquad(DesignPlatform)'', status = str ''Yellow'', prev = str ''Green'', backlog = 9\<rparr>,
     \<lparr>name = str ''Solution(Design&Dev)'', status = str ''Green'', prev = str ''Green'', backlog = 54\<rparr>,
     \<lparr>name = str ''SupportTeam(DesignPlatform)'', status = str ''Red'', prev = str ''Orange'', backlog = 8\<rparr>,
     \<lparr>name = str ''SystemTeam(DesignPlatform)'', status = str ''Red'', prev = str ''Red'', backlog = 12\<rparr>]"

text \<open>The three tags of the status enumeration of the specification.\<close>

definition status_tags :: "jsstring set" where
  "status_tags = {str ''Red'', str ''Yellow'', str ''Green''}"

text \<open>
  \<^verbatim>\<open>const statusColor = (s) =>
    s === "Green" ? "bg-emerald-500" : s === "Yellow" ? "bg-yellow-400" : "bg-rose-500";\<close>
\<close>

definition statusColor :: "jsstring \<Rightarrow> jsstring" where
  "statusColor s =
    (if s = str ''Green'' then str ''bg-emerald-500''
     else if s = str ''Yellow'' then str ''bg-yellow-400''
     else str ''bg-rose-500'')"

section \<open>Susan, Project Insight: detail-view keys and titles\<close>

text \<open>
  \<^verbatim>\<open>type InsightKey = "recommendation" | "risk" | "achievement" | "ai" | "teamPlanning"
     | "healthPerformance";\<close>
\<close>

datatype InsightKey = recommendation | risk | achievement | ai | teamPlanning | healthPerformance

text \<open>
  The object literal \<open>titleMap\<close> of \<open>ExecutiveSummary\<close>, indexed as \<open>titleMap[selected]\<close>.
  The title of \<open>ai\<close> has the code unit U+2011 (a non-breaking hyphen) between "AI" and
  "Generated".
\<close>

fun titleMap :: "InsightKey \<Rightarrow> jsstring" where
  "titleMap recommendation = str ''Executive Summary: Insights and Recommendations''"
| "titleMap risk = str ''Executive Summary: Risks and Mitigations''"
| "titleMap achievement = str ''Executive Summary: Highlights and Opportunities''"
| "titleMap ai = str ''Executive Summary: AI'' @ [0x2011] @ str ''Generated Insights''"
| "titleMap teamPlanning = str ''Executive Summary: Team Planning''"
| "titleMap healthPerformance = str ''Executive Summary: Health Performance''"

section \<open>Susan, Project Insight: the chat widget\<close>

text \<open>
  The state of \<open>SusanChat\<close>:
  \<^verbatim>\<open>const [msg, setMsg] = useState("");
  const [loading, setLoading] = useState(false);
  const [history, setHistory] = useState<{ role: "user" | "assistant"; content: string }[]>([
    { role: "assistant", content: "Hi, I'm Susan. How can I help with insights or summaries?" },
  ]);
  const [appeared, setAppeared] = useState(false);\<close>
  together with the prop \<open>open\<close>, which is the state \<open>chatOpen\<close> of \<open>App\<close> (initially false).
  The browser's part is explicit: \<open>pending\<close> holds the callbacks handed to \<open>setTimeout\<close> and
  \<open>requestAnimationFrame\<close> that have not run yet, each with the time from which it may run,
  and \<open>now\<close> is the clock in milliseconds.
\<close>

datatype role = user | assistant

record message =
  role :: role
  content :: jsstring

text \<open>
  The three callbacks the widget schedules: the reply closure of \<open>send\<close> (it captures
  \<open>text\<close>), \<open>onClose\<close> from \<open>handleClose\<close>, and \<open>() => setAppeared(true)\<close> from the effect.
\<close>

datatype callback = Reply jsstring | OnClose | Appear

record chat =
  chatOpen :: bool
  msg :: jsstring
  loading :: bool
  history :: "message list"
  appeared :: bool
  pending :: "(nat \<times> callback) list"
  now :: nat

definition greeting :: message where
  "greeting = \<lparr>role = assistant,
     content = str ''Hi, I'' @ [0x27] @ str ''m Susan. How can I help with insights or summaries?''\<rparr>"

definition init :: chat where
  "init = \<lparr>chatOpen = False, msg = [], loading = False, history = [greeting],
            appeared = False, pending = [], now = 0\<rparr>"

text \<open>
  \<open>String.prototype.trim\<close> removes leading and trailing white space and line terminators:
  TAB, LF, VT, FF, CR, SP, NBSP, U+1680, U+2000 to U+200A, U+2028, U+2029, U+202F, U+205F,
  U+3000 and U+FEFF.
\<close>

definition is_ws :: "16 word \<Rightarrow> bool" where
  "is_ws c \<longleftrightarrow>
     c \<in> {0x9, 0xA, 0xB, 0xC, 0xD, 0x20, 0xA0, 0x1680, 0x2028, 0x2029, 0x202F, 0x205F, 0x3000, 0xFEFF}
     \<or> (0x2000 \<le> c \<and> c \<le> 0x200A)"

definition trim :: "jsstring \<Rightarrow> jsstring" where
  "trim s = rev (dropWhile is_ws (rev (dropWhile is_ws s)))"

text \<open>The template literal \<^verbatim>\<open>`Here's a draft based on: "${text}". (demo)`\<close>.\<close>

definition reply_text :: "jsstring \<Rightarrow> jsstring" where
  "reply_text text =
     str ''Here'' @ [0x27] @ str ''s a draft based on: '' @ [0x22] @ text @ [0x22] @ str ''. (demo)''"

text \<open>
  \<^verbatim>\<open>const send = () => {
    const text = msg.trim();
    if (!text) return;
    setMsg("");
    setHistory((h) => [...h, { role: "user", content: text }]);
    setLoading(true);
    setTimeout(() => { ... }, 600);
  };\<close>
\<close>

definition send :: "chat \<Rightarrow> chat" where
  "send s =
    (let text = trim (msg s) in
     if text = [] then s
     else s\<lparr>msg := [],
            history := history s @ [\<lparr>role = user, content = text\<rparr>],
            loading := True,
            pending := pending s @ [(now s + 600, Reply text)]\<rparr>)"

text \<open>
  What a scheduled callback does when it runs. The reply closure:
  \<^verbatim>\<open>setHistory((h) => [...h, { role: "assistant", content: `...` }]);
  setLoading(false);\<close>
  \<open>onClose\<close> sets \<open>chatOpen\<close> to false, and when that changes \<open>open\<close> the effect on
  \<open>[open]\<close> runs \<open>setAppeared(false)\<close>.
\<close>

fun run_callback :: "callback \<Rightarrow> chat \<Rightarrow> chat" where
  "run_callback (Reply text) s =
     s\<lparr>history := history s @ [\<lparr>role = assistant, content = reply_text text\<rparr>], loading := False\<rparr>"
| "run_callback OnClose s = (if chatOpen s then s\<lparr>chatOpen := False, appeared := False\<rparr> else s)"
| "run_callback Appear s = s\<lparr>appeared := True\<rparr>"

text \<open>
  Everything that can happen to the widget. Clicks and keys reach a handler only while
  its element is rendered: the Ask Susan button when \<open>open\<close> is false, the panel with its
  Close button, input and Send button when \<open>open\<close> is true; the Send button is
  \<open>disabled={loading}\<close>, the input's key handler is not guarded:
  \<^verbatim>\<open>onKeyDown={(e) => { if (e.key === 'Enter') send(); }}\<close>
  \<open>Elapse d\<close> lets \<open>d\<close> milliseconds pass; \<open>Fire i\<close> runs the \<open>i\<close>-th pending callback if its
  time has come, in any order among those that are due.
\<close>

datatype event =
    ClickAskSusan | ClickClose | Change jsstring | KeyDown jsstring | ClickSend
  | Elapse nat | Fire nat

fun step :: "event \<Rightarrow> chat \<Rightarrow> chat" where
  "step ClickAskSusan s =
     (if chatOpen s then s else s\<lparr>chatOpen := True, pending := pending s @ [(now s, Appear)]\<rparr>)"
| "step ClickClose s =
     (if chatOpen s then s\<lparr>appeared := False, pending := pending s @ [(now s + 180, OnClose)]\<rparr> else s)"
| "step (Change v) s = (if chatOpen s then s\<lparr>msg := v\<rparr> else s)"
| "step (KeyDown key) s = (if chatOpen s \<and> key = str ''Enter'' then send s else s)"
| "step ClickSend s = (if chatOpen s \<and> \<not> loading s then send s else s)"
| "step (Elapse d) s = s\<lparr>now := now s + d\<rparr>"
| "step (Fire i) s =
     (if i < length (pending s) \<and> fst (pending s ! i) \<le> now s
      then run_callback (snd (pending s ! i)) (s\<lparr>pending := take i (pending s) @ drop (Suc i) (pending s)\<rparr>)
      else s)"

fun run :: "event list \<Rightarrow> chat \<Rightarrow> chat" where
  "run [] s = s"
| "run (e # es) s = run es (step e s)"

text \<open>The states the widget can be in: the initial one and what events make of it.\<close>

inductive reachable :: "chat \<Rightarrow> bool" where
  reachable_init: "reachable init"
| reachable_step: "reachable s \<Longrightarrow> reachable (step e s)"

section \<open>Properties of the percentage helper\<close>

subsection \<open>The binary exponent\<close>

text \<open>\<open>expo\<close> finds the exponent: it brackets a non-zero \<open>x\<close>, and only one exponent does.\<close>

lemma expo_bounds:
  assumes "x \<noteq> 0"
  shows "2 powi expo x \<le> \<bar>x\<bar> \<and> \<bar>x\<bar> < 2 powi (expo x + 1)"
proof -
  obtain p q where pq: "quotient_of \<bar>x\<bar> = (p, q)" by (cases "quotient_of \<bar>x\<bar>")
  then have q: "0 < q" and x: "\<bar>x\<bar> = of_int p / of_int q"
    by (simp_all add: quotient_of_denom_pos quotient_of_div)
  from assms have "0 < \<bar>x\<bar>" by simp
  with x q have p: "0 < p" by (simp add: zero_less_divide_iff)
  define bp where "bp = bitlen p"
  define bq where "bq = bitlen q"
  from bitlen_bounds [OF p] have p1: "2 ^ nat (bp - 1) \<le> p" and p2: "p < 2 ^ nat bp"
    by (simp_all add: bp_def)
  from bitlen_bounds [OF q] have q1: "2 ^ nat (bq - 1) \<le> q" and q2: "q < 2 ^ nat bq"
    by (simp_all add: bq_def)
  from p have bp: "1 \<le> bp" unfolding bp_def using bitlen_eq_zero_iff [of p] bitlen_nonneg [of p] by linarith
  from q have bq: "1 \<le> bq" unfolding bq_def using bitlen_eq_zero_iff [of q] bitlen_nonneg [of q] by linarith
  have P1: "(2::rat) powi (bp - 1) \<le> of_int p"
  proof -
    have "(of_int (2 ^ nat (bp - 1)) :: rat) \<le> of_int p" using p1 by (simp only: of_int_le_iff)
    then show ?thesis using bp by (simp add: power_int_def)
  qed
  have P2: "(of_int p :: rat) < 2 powi bp"
  proof -
    have "(of_int p :: rat) < of_int (2 ^ nat bp)" using p2 by (simp only: of_int_less_iff)
    then show ?thesis using bp by (simp add: power_int_def)
  qed
  have Q1: "(2::rat) powi (bq - 1) \<le> of_int q"
  proof -
    have "(of_int (2 ^ nat (bq - 1)) :: rat) \<le> of_int q" using q1 by (simp only: of_int_le_iff)
    then show ?thesis using bq by (simp add: power_int_def)
  qed
  have Q2: "(of_int q :: rat) < 2 powi bq"
  proof -
    have "(of_int q :: rat) < of_int (2 ^ nat bq)" using q2 by (simp only: of_int_less_iff)
    then show ?thesis using bq by (simp add: power_int_def)
  qed
  have qpos: "(0::rat) < of_int q" using q by simp
  have lo: "(2::rat) powi (bp - bq - 1) < \<bar>x\<bar>"
  proof -
    have "(2::rat) powi (bp - bq - 1) * of_int q < 2 powi (bp - bq - 1) * 2 powi bq"
      using Q2 by (simp add: mult_strict_left_mono)
    also have "\<dots> = 2 powi (bp - 1)" by (simp add: power_int_add [symmetric])
    also have "\<dots> \<le> of_int p" by (rule P1)
    finally show ?thesis using qpos by (simp add: x pos_less_divide_eq)
  qed
  have hi: "\<bar>x\<bar> < (2::rat) powi (bp - bq + 1)"
  proof -
    have "(of_int p :: rat) < 2 powi bp" by (rule P2)
    also have "\<dots> = 2 powi (bp - bq + 1) * 2 powi (bq - 1)" by (simp add: power_int_add [symmetric])
    also have "\<dots> \<le> 2 powi (bp - bq + 1) * of_int q"
      using Q1 by (simp add: mult_left_mono)
    finally show ?thesis using qpos by (simp add: x pos_divide_less_eq)
  qed
  show ?thesis
  proof (cases "(2::rat) powi (bp - bq) \<le> \<bar>x\<bar>")
    case True
    then have "expo x = bp - bq" by (simp add: expo_def pq bp_def bq_def)
    with True hi show ?thesis by simp
  next
    case False
    then have "expo x = bp - bq - 1" by (simp add: expo_def pq bp_def bq_def)
    with False lo show ?thesis by simp
  qed
qed

lemma powi2_less_imp:
  assumes "(2::rat) powi m < 2 powi n"
  shows "m < n"
proof (rule ccontr)
  assume "\<not> m < n"
  then have "n \<le> m" by simp
  then have "(2::rat) powi n \<le> 2 powi m" by (rule power_int_increasing) simp
  with assms show False by simp
qed

lemma expo_unique:
  assumes "2 powi e \<le> \<bar>x\<bar>" and "\<bar>x\<bar> < 2 powi (e + 1)"
  shows "expo x = e"
proof -
  from assms(1) have "0 < \<bar>x\<bar>" by (rule less_le_trans [rotated]) simp
  then have "x \<noteq> 0" by simp
  from expo_bounds [OF this] have b: "2 powi expo x \<le> \<bar>x\<bar>" "\<bar>x\<bar> < 2 powi (expo x + 1)"
    by simp_all
  have "(2::rat) powi e < 2 powi (expo x + 1)" using assms(1) b(2) by (rule le_less_trans)
  then have 1: "e < expo x + 1" by (rule powi2_less_imp)
  have "(2::rat) powi expo x < 2 powi (e + 1)" using b(1) assms(2) by (rule le_less_trans)
  then have 2: "expo x < e + 1" by (rule powi2_less_imp)
  from 1 2 show ?thesis by simp
qed


subsection \<open>Rounding keeps a value between the integers around it\<close>





subsection \<open>Evaluating the rounding at a known exponent\<close>

lemma to_double_eval:
  assumes "2 powi e \<le> \<bar>x\<bar>" and "\<bar>x\<bar> < 2 powi (e + 1)"
  shows "to_double x =
    (let u = 2 powi (max e (- 1022) - 52); y = of_int (round_half_even (x / u)) * u in
     if 2 powi 1024 \<le> \<bar>y\<bar> then (if 0 < x then PosInf else NegInf) else Fin y)"
  using expo_unique [OF assms] by (simp add: to_double_def ulp_def Let_def)

lemma floor_numeral_div [simp]: "\<lfloor>(numeral a :: rat) / numeral b\<rfloor> = numeral a div numeral b"
  using floor_divide_of_int_eq [of "numeral a" "numeral b", where ?'a = rat] by simp

lemma floor_neg_numeral_div [simp]:
  "\<lfloor>- ((numeral a :: rat) / numeral b)\<rfloor> = (- numeral a) div numeral b"
  using floor_divide_of_int_eq [of "- numeral a" "numeral b", where ?'a = rat] by simp

lemma floor_one_div [simp]: "\<lfloor>(1 :: rat) / numeral b\<rfloor> = 1 div numeral b"
  using floor_divide_of_int_eq [of 1 "numeral b", where ?'a = rat] by simp

lemmas eval_simps = round_half_even_def Let_def power_int_minus_divide

text \<open>The literals 0, 1 and 100 of the helper are binary64 values.\<close>

lemma lit_0 [simp]: "to_double 0 = Fin 0"
  by (simp add: to_double_def round_half_even_def)

lemma lit_1 [simp]: "to_double 1 = Fin 1"
  by (subst to_double_eval [where e = "0"]) (simp_all add: eval_simps)

lemma lit_100 [simp]: "to_double 100 = Fin 100"
  by (subst to_double_eval [where e = "6"]) (simp_all add: eval_simps)

subsection \<open>Range of the helper\<close>

lemma calcDefinedPct_Fin:
  "calcDefinedPct (Fin r) = Math_round (to_double (max 0 (min 1 r) * 100))"
  by (simp add: calcDefinedPct_def)

lemma calcDefinedPct_low: "r \<le> 0 \<Longrightarrow> calcDefinedPct (Fin r) = Fin 0"
  by (simp add: calcDefinedPct_Fin max_def min_def)

lemma calcDefinedPct_high: "1 \<le> r \<Longrightarrow> calcDefinedPct (Fin r) = Fin 100"
  by (simp add: calcDefinedPct_Fin max_def min_def)




text \<open>
  Beyond the reals: the infinities are clamped like any other out-of-range input, and
  not-a-number passes through \<open>Math.min\<close>, \<open>Math.max\<close>, the product and \<open>Math.round\<close>.
\<close>

lemma calcDefinedPct_special:
  "calcDefinedPct NaN = NaN" "calcDefinedPct PosInf = Fin 100" "calcDefinedPct NegInf = Fin 0"
  by (simp_all add: calcDefinedPct_def)

subsection \<open>The reference table\<close>

text \<open>The decimal literals of the table as binary64 values, and their products by 100.\<close>

lemma lit_1_2: "to_double (12 / 10) = Fin (5404319552844595 / 4503599627370496)"
  by (subst to_double_eval [where e = "0"]) (simp_all add: eval_simps)

lemma lit_neg_0_2: "to_double (- (2 / 10)) = Fin (- (3602879701896397 / 18014398509481984))"
  by (subst to_double_eval [where e = "- 3"]) (simp_all add: eval_simps)

lemma lit_0_67: "to_double (67 / 100) = Fin (6034823500676465 / 9007199254740992)"
  by (subst to_double_eval [where e = "- 1"]) (simp_all add: eval_simps)

lemma lit_0_345: "to_double (345 / 1000) = Fin (1553741871442821 / 4503599627370496)"
  by (subst to_double_eval [where e = "- 2"]) (simp_all add: eval_simps)

lemma lit_0_995: "to_double (995 / 1000) = Fin (8962163258467287 / 9007199254740992)"
  by (subst to_double_eval [where e = "- 1"]) (simp_all add: eval_simps)

lemma mul_0_67: "mul (to_double (67 / 100)) (to_double 100) = Fin 67"
  unfolding lit_0_67 lit_100 mul.simps
  by (subst to_double_eval [where e = "6"]) (simp_all add: eval_simps)

lemma mul_0_345: "mul (to_double (345 / 1000)) (to_double 100) = Fin (69 / 2)"
  unfolding lit_0_345 lit_100 mul.simps
  by (subst to_double_eval [where e = "5"]) (simp_all add: eval_simps)

lemma mul_0_995: "mul (to_double (995 / 1000)) (to_double 100) = Fin (199 / 2)"
  unfolding lit_0_995 lit_100 mul.simps
  by (subst to_double_eval [where e = "6"]) (simp_all add: eval_simps)

lemma clamp_mid:
  "0 \<le> x \<Longrightarrow> x \<le> 1 \<Longrightarrow> calcDefinedPct (Fin x) = Math_round (mul (Fin x) (to_double 100))"
  by (simp add: calcDefinedPct_def max_def min_def)


text \<open>
  C2. The reference table: 0 gives 0, 1 gives 100, 1.2 gives 100, -0.2 gives 0, 0.67 gives
  67, 0.345 gives 35 and 0.995 gives 100. For the last two the binary64 product is exactly
  34.5 and 99.5, and the tie is rounded upwards.
\<close>

theorem calcDefinedPct_table:
  "calcDefinedPct (to_double 0) = Fin 0
   \<and> calcDefinedPct (to_double 1) = Fin 100
   \<and> calcDefinedPct (to_double (12 / 10)) = Fin 100
   \<and> calcDefinedPct (to_double (- (2 / 10))) = Fin 0
   \<and> calcDefinedPct (to_double (67 / 100)) = Fin 67
   \<and> calcDefinedPct (to_double (345 / 1000)) = Fin 35
   \<and> calcDefinedPct (to_double (995 / 1000)) = Fin 100
   \<and> mul (to_double (345 / 1000)) (to_double 100) = Fin (69 / 2)
   \<and> mul (to_double (995 / 1000)) (to_double 100) = Fin (199 / 2)
   \<and> Math_round (Fin (69 / 2)) = Fin 35
   \<and> Math_round (Fin (199 / 2)) = Fin 100"
proof -
  have 1: "calcDefinedPct (to_double 0) = Fin 0" by (simp add: calcDefinedPct_low)
  have 2: "calcDefinedPct (to_double 1) = Fin 100" by (simp add: calcDefinedPct_high)
  have 3: "calcDefinedPct (to_double (12 / 10)) = Fin 100"
    unfolding lit_1_2 by (rule calcDefinedPct_high) simp
  have 4: "calcDefinedPct (to_double (- (2 / 10))) = Fin 0"
    unfolding lit_neg_0_2 by (rule calcDefinedPct_low) simp
  have 5: "calcDefinedPct (to_double (67 / 100)) = Fin 67"
  proof -
    have "calcDefinedPct (to_double (67 / 100)) = Math_round (mul (to_double (67 / 100)) (to_double 100))"
      unfolding lit_0_67 by (rule clamp_mid) simp_all
    also have "\<dots> = Fin 67" unfolding mul_0_67 by simp
    finally show ?thesis .
  qed
  have 6: "calcDefinedPct (to_double (345 / 1000)) = Fin 35"
  proof -
    have "calcDefinedPct (to_double (345 / 1000)) = Math_round (mul (to_double (345 / 1000)) (to_double 100))"
      unfolding lit_0_345 by (rule clamp_mid) simp_all
    also have "\<dots> = Fin 35" unfolding mul_0_345 by simp
    finally show ?thesis .
  qed
  have 7: "calcDefinedPct (to_double (995 / 1000)) = Fin 100"
  proof -
    have "calcDefinedPct (to_double (995 / 1000)) = Math_round (mul (to_double (995 / 1000)) (to_double 100))"
      unfolding lit_0_995 by (rule clamp_mid) simp_all
    also have "\<dots> = Fin 100" unfolding mul_0_995 by simp
    finally show ?thesis .
  qed
  have 8: "Math_round (Fin (69 / 2)) = Fin 35" by simp
  have 9: "Math_round (Fin (199 / 2)) = Fin 100" by simp
  from 1 2 3 4 5 6 7 8 9 mul_0_345 mul_0_995 show ?thesis by blast
qed

section \<open>Properties of the status table and the colour lookup\<close>

lemma str_simps [simp]:
  "str [] = []"
  "str (c # cs) = of_nat (of_char c) # str cs"
  by (simp_all add: str_def)

text \<open>
  C9. The colour lookup is total: Green gives bg-emerald-500, Yellow gives bg-yellow-400, and
  every other string, the tag Orange of the table included, gives bg-rose-500; so every
  string gets one of the three colour classes.
\<close>

theorem statusColor_total:
  "statusColor (str ''Green'') = str ''bg-emerald-500''
   \<and> statusColor (str ''Yellow'') = str ''bg-yellow-400''
   \<and> (\<forall>s. s \<noteq> str ''Green'' \<and> s \<noteq> str ''Yellow'' \<longrightarrow> statusColor s = str ''bg-rose-500'')
   \<and> statusColor (str ''Orange'') = str ''bg-rose-500''
   \<and> (\<forall>s. statusColor s \<in> {str ''bg-emerald-500'', str ''bg-yellow-400'', str ''bg-rose-500''})"
  by (simp add: statusColor_def)

theorem statusColor_total_witness:
  "str ''Red'' \<noteq> str ''Green'' \<and> str ''Red'' \<noteq> str ''Yellow''
   \<and> statusColor (str ''Red'') = str ''bg-rose-500''"
proof -
  have h: "str ''Red'' \<noteq> str ''Green'' \<and> str ''Red'' \<noteq> str ''Yellow''"
    by simp
  from statusColor_total have
    "\<forall>s. s \<noteq> str ''Green'' \<and> s \<noteq> str ''Yellow'' \<longrightarrow> statusColor s = str ''bg-rose-500''"
    by blast
  with h show ?thesis by blast
qed

text \<open>
  C5, as the table has it. Every row has a current status among Red, Yellow and Green;
  the previous status is among them too in every row but that of
  SupportTeam(DesignPlatform), where it is Orange.
\<close>

theorem teams_status_tags:
  "\<forall>t\<in>set teams. status t \<in> status_tags
     \<and> (if name t = str ''SupportTeam(DesignPlatform)'' then prev t = str ''Orange''
        else prev t \<in> status_tags)"
  by (simp add: teams_def status_tags_def)

theorem teams_status_tags_witness:
  "teams ! 2 \<in> set teams \<and> status (teams ! 2) \<in> status_tags \<and> prev (teams ! 2) \<in> status_tags"
proof -
  have m: "teams ! 2 \<in> set teams" by (simp add: teams_def)
  have n: "name (teams ! 2) \<noteq> str ''SupportTeam(DesignPlatform)''" by (simp add: teams_def)
  from teams_status_tags m have
    "status (teams ! 2) \<in> status_tags
     \<and> (if name (teams ! 2) = str ''SupportTeam(DesignPlatform)'' then prev (teams ! 2) = str ''Orange''
        else prev (teams ! 2) \<in> status_tags)"
    by blast
  with m n show ?thesis by simp
qed

text \<open>
  The claim as first stated, with the previous status of every row among Red, Yellow and
  Green, fails at the fifth row.
\<close>

theorem teams_prev_counterexample:
  "teams ! 4 \<in> set teams \<and> prev (teams ! 4) = str ''Orange'' \<and> prev (teams ! 4) \<notin> status_tags"
  by (simp add: teams_def status_tags_def)

section \<open>Properties of the detail-view titles\<close>

lemma InsightKey_UNIV:
  "(UNIV :: InsightKey set) = {recommendation, risk, achievement, ai, teamPlanning, healthPerformance}"
proof -
  have "k \<in> {recommendation, risk, achievement, ai, teamPlanning, healthPerformance}" for k
    by (cases k) simp_all
  then show ?thesis by blast
qed

lemma titleMap_nonempty: "titleMap k \<noteq> []"
  by (cases k) simp_all

lemma titleMap_distinct:
  "distinct (map titleMap [recommendation, risk, achievement, ai, teamPlanning, healthPerformance])"
  by simp

text \<open>
  C6. The detail-view keys are the six keys recommendation, risk, achievement, ai,
  teamPlanning and healthPerformance and no other; the title map gives each a title that
  is not empty, and the six titles are pairwise different.
\<close>

theorem insight_keys_titles:
  "(UNIV :: InsightKey set) = {recommendation, risk, achievement, ai, teamPlanning, healthPerformance}
   \<and> (\<forall>k. titleMap k \<noteq> [])
   \<and> distinct (map titleMap [recommendation, risk, achievement, ai, teamPlanning, healthPerformance])"
  using InsightKey_UNIV titleMap_nonempty titleMap_distinct by blast

section \<open>Properties of the chat widget\<close>

lemma trim_ws: "(\<forall>c\<in>set t. is_ws c) \<Longrightarrow> trim t = []"
proof -
  assume "\<forall>c\<in>set t. is_ws c"
  then have d: "dropWhile is_ws t = []" by (simp only: dropWhile_eq_Nil_conv)
  show ?thesis unfolding trim_def d by simp
qed

lemma trim_nonempty_iff: "trim t \<noteq> [] \<longleftrightarrow> (\<exists>c\<in>set t. \<not> is_ws c)"
proof
  assume "trim t \<noteq> []"
  then show "\<exists>c\<in>set t. \<not> is_ws c" using trim_ws by blast
next
  assume "\<exists>c\<in>set t. \<not> is_ws c"
  then have ne: "dropWhile is_ws t \<noteq> []" by (simp only: dropWhile_eq_Nil_conv) blast
  then have "\<not> is_ws (hd (dropWhile is_ws t))" by (rule hd_dropWhile)
  moreover from ne have "hd (dropWhile is_ws t) \<in> set (rev (dropWhile is_ws t))" by simp
  ultimately have "dropWhile is_ws (rev (dropWhile is_ws t)) \<noteq> []"
    by (simp only: dropWhile_eq_Nil_conv) blast
  then show "trim t \<noteq> []" unfolding trim_def by simp
qed

lemma trim_hello: "trim (str ''hello'') = str ''hello''"
  by (simp add: trim_def is_ws_def)

lemma send_history:
  "history (send s) =
     (if trim (msg s) = [] then history s
      else history s @ [\<lparr>role = user, content = trim (msg s)\<rparr>])"
  by (simp add: send_def Let_def)

lemma send_pending:
  "pending (send s) =
     (if trim (msg s) = [] then pending s
      else pending s @ [(now s + 600, Reply (trim (msg s)))])"
  by (simp add: send_def Let_def)

lemma send_others:
  "chatOpen (send s) = chatOpen s" "now (send s) = now s" "appeared (send s) = appeared s"
  by (simp_all add: send_def Let_def)

lemma run_callback_history:
  "history (run_callback c s) =
     (case c of Reply text \<Rightarrow> history s @ [\<lparr>role = assistant, content = reply_text text\<rparr>]
      | _ \<Rightarrow> history s)"
  by (cases c) simp_all

lemma send_prefix: "prefix (history s) (history (send s))"
  by (simp add: send_history)

lemma run_callback_prefix: "prefix (history s) (history (run_callback c s))"
  by (simp add: run_callback_history split: callback.split)

lemma step_prefix: "prefix (history s) (history (step e s))"
proof (cases e)
  case (Fire i)
  have "prefix (history (s\<lparr>pending := take i (pending s) @ drop (Suc i) (pending s)\<rparr>))
     (history (run_callback (snd (pending s ! i))
        (s\<lparr>pending := take i (pending s) @ drop (Suc i) (pending s)\<rparr>)))"
    by (rule run_callback_prefix)
  with Fire show ?thesis by simp
qed (simp_all add: send_prefix)

lemma run_prefix: "prefix (history s) (history (run es s))"
proof (induction es arbitrary: s)
  case Nil
  show ?case by simp
next
  case (Cons e es)
  have "prefix (history s) (history (step e s))" by (rule step_prefix)
  also have "prefix (history (step e s)) (history (run es (step e s)))" by (rule Cons.IH)
  finally show ?case by simp
qed

lemma reachable_greeting: "reachable s \<Longrightarrow> prefix [greeting] (history s)"
proof (induction rule: reachable.induct)
  case reachable_init
  show ?case by (simp add: init_def)
next
  case (reachable_step s e)
  from reachable_step.IH step_prefix [of s e] show ?case by (rule prefix_order.trans)
qed

lemma reachable_run: "reachable s \<Longrightarrow> reachable (run es s)"
  by (induction es arbitrary: s) (simp_all add: reachable_step)

lemma sublist_reply_text: "sublist text (reply_text text)"
  unfolding sublist_def reply_text_def
  by (rule exI [of _ "str ''Here'' @ [0x27] @ str ''s a draft based on: '' @ [0x22]"],
      rule exI [of _ "[0x22] @ str ''. (demo)''"]) simp

text \<open>
  C3. When the input is empty or holds only white space, \<open>send\<close> changes nothing: the
  history, the input, the loading flag and the pending callbacks stay as they were, whether
  \<open>send\<close> is reached by the Enter key or by the Send button. No error is shown, since the
  state has nothing else to show.
\<close>

theorem send_blank_ignored:
  assumes "\<forall>c\<in>set (msg s). is_ws c"
  shows "send s = s \<and> step (KeyDown (str ''Enter'')) s = s \<and> step ClickSend s = s"
  using assms by (simp add: send_def trim_ws)

theorem send_blank_ignored_witness:
  "list_all is_ws (msg (init\<lparr>msg := [0x20, 0x9, 0xA0]\<rparr>))
   \<and> send (init\<lparr>msg := [0x20, 0x9, 0xA0]\<rparr>) = init\<lparr>msg := [0x20, 0x9, 0xA0]\<rparr>"
proof -
  have w: "\<forall>c\<in>set (msg (init\<lparr>msg := [0x20, 0x9, 0xA0]\<rparr>)). is_ws c"
    by (simp add: is_ws_def)
  then have "list_all is_ws (msg (init\<lparr>msg := [0x20, 0x9, 0xA0]\<rparr>))"
    by (simp only: list_all_iff)
  with send_blank_ignored [OF w] show ?thesis by blast
qed

text \<open>
  C4. With "hello" in the input, \<open>send\<close> appends the one entry (user, "hello") to the
  history at once and schedules the reply 600 ms ahead; the reply callback appends the one
  entry (assistant, text) whose text contains "hello". With nothing else pending, the
  history before the 600 ms have passed is the old one plus the user entry, and once they
  have passed and the callback has run it is the old one plus the user entry plus the
  assistant entry.
\<close>

theorem send_hello:
  assumes "msg s = str ''hello''"
  shows "history (send s) = history s @ [\<lparr>role = user, content = str ''hello''\<rparr>]
    \<and> pending (send s) = pending s @ [(now s + 600, Reply (str ''hello''))]
    \<and> history (run_callback (Reply (str ''hello'')) s') =
        history s' @ [\<lparr>role = assistant, content = reply_text (str ''hello'')\<rparr>]
    \<and> sublist (str ''hello'') (reply_text (str ''hello''))
    \<and> (chatOpen s \<and> pending s = [] \<and> d < 600 \<longrightarrow>
         history (run [KeyDown (str ''Enter''), Elapse d, Fire 0] s) =
           history s @ [\<lparr>role = user, content = str ''hello''\<rparr>])
    \<and> (chatOpen s \<and> pending s = [] \<longrightarrow>
         history (run [KeyDown (str ''Enter''), Elapse 600, Fire 0] s) =
           history s @ [\<lparr>role = user, content = str ''hello''\<rparr>,
                        \<lparr>role = assistant, content = reply_text (str ''hello'')\<rparr>])"
proof -
  from assms have t: "trim (msg s) = str ''hello''" by (simp only: trim_hello)
  have ne: "str ''hello'' \<noteq> []" by simp
  have 1: "history (send s) = history s @ [\<lparr>role = user, content = str ''hello''\<rparr>]"
    by (simp only: send_history t ne if_False)
  have 2: "pending (send s) = pending s @ [(now s + 600, Reply (str ''hello''))]"
    by (simp only: send_pending t ne if_False)
  have 3: "history (run_callback (Reply (str ''hello'')) s') =
        history s' @ [\<lparr>role = assistant, content = reply_text (str ''hello'')\<rparr>]"
    by (simp only: run_callback_history callback.case)
  have 4: "sublist (str ''hello'') (reply_text (str ''hello''))"
    by (rule sublist_reply_text)
  have 5: "history (run [KeyDown (str ''Enter''), Elapse d, Fire 0] s) =
           history s @ [\<lparr>role = user, content = str ''hello''\<rparr>]"
    if "chatOpen s \<and> pending s = [] \<and> d < 600"
    using that 1 2 by (simp add: send_others)
  have 6: "history (run [KeyDown (str ''Enter''), Elapse 600, Fire 0] s) =
           history s @ [\<lparr>role = user, content = str ''hello''\<rparr>,
                        \<lparr>role = assistant, content = reply_text (str ''hello'')\<rparr>]"
    if "chatOpen s \<and> pending s = []"
    using that 1 2 by (simp add: send_others)
  from 1 2 3 4 5 6 show ?thesis by blast
qed

theorem send_hello_witness:
  "msg (init\<lparr>chatOpen := True, msg := str ''hello''\<rparr>) = str ''hello''
   \<and> chatOpen (init\<lparr>chatOpen := True, msg := str ''hello''\<rparr>)
   \<and> pending (init\<lparr>chatOpen := True, msg := str ''hello''\<rparr>) = []
   \<and> (0 :: nat) < 600
   \<and> history (run [KeyDown (str ''Enter''), Elapse 0, Fire 0]
        (init\<lparr>chatOpen := True, msg := str ''hello''\<rparr>)) =
      [greeting, \<lparr>role = user, content = str ''hello''\<rparr>]
   \<and> history (run [KeyDown (str ''Enter''), Elapse 600, Fire 0]
        (init\<lparr>chatOpen := True, msg := str ''hello''\<rparr>)) =
      [greeting, \<lparr>role = user, content = str ''hello''\<rparr>,
       \<lparr>role = assistant, content = reply_text (str ''hello'')\<rparr>]"
proof -
  have h: "msg (init\<lparr>chatOpen := True, msg := str ''hello''\<rparr>) = str ''hello''"
    by simp
  have g: "chatOpen (init\<lparr>chatOpen := True, msg := str ''hello''\<rparr>)
    \<and> pending (init\<lparr>chatOpen := True, msg := str ''hello''\<rparr>) = [] \<and> (0 :: nat) < 600"
    by (simp add: init_def)
  have i: "history (init\<lparr>chatOpen := True, msg := str ''hello''\<rparr>) = [greeting]"
    by (simp add: init_def)
  note T = send_hello [OF h, of _ 0]
  from T g have "history (run [KeyDown (str ''Enter''), Elapse 0, Fire 0]
        (init\<lparr>chatOpen := True, msg := str ''hello''\<rparr>)) =
      history (init\<lparr>chatOpen := True, msg := str ''hello''\<rparr>)
        @ [\<lparr>role = user, content = str ''hello''\<rparr>]"
    by blast
  then have a: "history (run [KeyDown (str ''Enter''), Elapse 0, Fire 0]
        (init\<lparr>chatOpen := True, msg := str ''hello''\<rparr>)) =
      [greeting, \<lparr>role = user, content = str ''hello''\<rparr>]"
    by (simp only: i append_Cons append_Nil)
  from T g have "history (run [KeyDown (str ''Enter''), Elapse 600, Fire 0]
        (init\<lparr>chatOpen := True, msg := str ''hello''\<rparr>)) =
      history (init\<lparr>chatOpen := True, msg := str ''hello''\<rparr>)
        @ [\<lparr>role = user, content = str ''hello''\<rparr>,
           \<lparr>role = assistant, content = reply_text (str ''hello'')\<rparr>]"
    by blast
  then have b: "history (run [KeyDown (str ''Enter''), Elapse 600, Fire 0]
        (init\<lparr>chatOpen := True, msg := str ''hello''\<rparr>)) =
      [greeting, \<lparr>role = user, content = str ''hello''\<rparr>,
       \<lparr>role = assistant, content = reply_text (str ''hello'')\<rparr>]"
    by (simp only: i append_Cons append_Nil)
  from h g a b show ?thesis by blast
qed

text \<open>
  C7. The history only grows at its end: whatever the event, the history before it is a
  prefix of the history after it, and so it is along any sequence of events. The two
  operations that write the history, \<open>send\<close> and the reply callback, leave it as it is or
  add one entry after the last.
\<close>

theorem history_append_only:
  "prefix (history s) (history (step e s))
   \<and> prefix (history s) (history (run es s))
   \<and> (history (send s) = history s
      \<or> history (send s) = history s @ [\<lparr>role = user, content = trim (msg s)\<rparr>])
   \<and> (history (run_callback c s) = history s
      \<or> (\<exists>text. history (run_callback c s) =
            history s @ [\<lparr>role = assistant, content = reply_text text\<rparr>]))"
proof -
  have "history (run_callback c s) = history s
      \<or> (\<exists>text. history (run_callback c s) =
            history s @ [\<lparr>role = assistant, content = reply_text text\<rparr>])"
    by (cases c) auto
  moreover have "history (send s) = history s
      \<or> history (send s) = history s @ [\<lparr>role = user, content = trim (msg s)\<rparr>]"
    by (simp add: send_history)
  ultimately show ?thesis using step_prefix [of s e] run_prefix [of s es] by blast
qed

text \<open>
  C8. Nothing keeps a second exchange from starting while a reply is awaited: with
  \<open>loading\<close> true and an input that is not blank, \<open>send\<close> appends the user entry all the same
  and schedules one more reply, and the Enter key in the input reaches \<open>send\<close>.
\<close>

theorem send_while_loading:
  assumes "loading s" and "trim (msg s) \<noteq> []"
  shows "history (send s) = history s @ [\<lparr>role = user, content = trim (msg s)\<rparr>]
    \<and> pending (send s) = pending s @ [(now s + 600, Reply (trim (msg s)))]
    \<and> (chatOpen s \<longrightarrow> step (KeyDown (str ''Enter'')) s = send s)"
  using assms by (simp add: send_history send_pending)

theorem send_while_loading_witness:
  "loading (run [ClickAskSusan, Change (str ''a''), KeyDown (str ''Enter''), Change (str ''b'')] init)
   \<and> trim (msg (run [ClickAskSusan, Change (str ''a''), KeyDown (str ''Enter''), Change (str ''b'')] init)) \<noteq> []
   \<and> chatOpen (run [ClickAskSusan, Change (str ''a''), KeyDown (str ''Enter''), Change (str ''b'')] init)
   \<and> history (step (KeyDown (str ''Enter''))
        (run [ClickAskSusan, Change (str ''a''), KeyDown (str ''Enter''), Change (str ''b'')] init)) =
      [greeting, \<lparr>role = user, content = str ''a''\<rparr>, \<lparr>role = user, content = str ''b''\<rparr>]"
proof -
  define s where "s = run [ClickAskSusan, Change (str ''a''), KeyDown (str ''Enter''), Change (str ''b'')] init"
  have l: "loading s" and c: "chatOpen s" and m: "msg s = str ''b''"
    and h: "history s = [greeting, \<lparr>role = user, content = str ''a''\<rparr>]"
    by (simp_all add: s_def init_def send_def Let_def trim_def is_ws_def)
  have t: "trim (msg s) = str ''b''" by (simp add: m trim_def is_ws_def)
  then have n: "trim (msg s) \<noteq> []" by simp
  from send_while_loading [OF l n] l n c h t show ?thesis unfolding s_def [symmetric] by simp
qed

text \<open>While a reply is awaited the Send button itself is disabled; only the key is open.\<close>

lemma ClickSend_while_loading: "loading s \<Longrightarrow> step ClickSend s = s"
  by simp

text \<open>
  C10. The history starts as the single assistant entry "Hi, I'm Susan. How can I help with
  insights or summaries?", and in every reachable state it is non-empty and still begins
  with that entry.
\<close>

theorem history_begins_with_greeting:
  "history init = [greeting]
   \<and> role greeting = assistant
   \<and> content greeting =
       str ''Hi, I'' @ [0x27] @ str ''m Susan. How can I help with insights or summaries?''
   \<and> (reachable s \<longrightarrow> history s \<noteq> [] \<and> hd (history s) = greeting)"
proof -
  have "history s \<noteq> [] \<and> hd (history s) = greeting" if "reachable s"
    using reachable_greeting [OF that] by (auto simp add: prefix_def)
  then show ?thesis by (simp add: init_def greeting_def)
qed

theorem history_begins_with_greeting_witness:
  "reachable (run [ClickAskSusan, Change (str ''hello''), KeyDown (str ''Enter''), Elapse 600, Fire 1] init)
   \<and> history (run [ClickAskSusan, Change (str ''hello''), KeyDown (str ''Enter''), Elapse 600, Fire 1] init) \<noteq> []
   \<and> hd (history (run [ClickAskSusan, Change (str ''hello''), KeyDown (str ''Enter''), Elapse 600, Fire 1] init)) = greeting"
proof -
  have r: "reachable (run [ClickAskSusan, Change (str ''hello''), KeyDown (str ''Enter''), Elapse 600, Fire 1] init)"
    by (rule reachable_run) (rule reachable_init)
  from history_begins_with_greeting
    [of "run [ClickAskSusan, Change (str ''hello''), KeyDown (str ''Enter''), Elapse 600, Fire 1] init"] r
  show ?thesis by blast
qed

end
